theory Spec2Isabelle
  imports Main "HOL-Library.Sublist"
begin

section \<open>Strings\<close>

text \<open>
  A Python \<open>str\<close> is modelled as a \<open>string\<close>, one \<open>char\<close> per code point; the
  model therefore covers the texts whose code points lie below 256 (ASCII and Latin-1),
  and \<open>length\<close> is Python's \<open>len\<close> on them.
\<close>

text \<open>
  \<open>str.lower()\<close> on one code point below 256: the ASCII capitals \<open>A\<close>..\<open>Z\<close> and the
  Latin-1 capitals U+00C0..U+00DE (the multiplication sign U+00D7 apart) move up by 32;
  every other code point stays.
\<close>

definition lower_char :: "char \<Rightarrow> char" where
  "lower_char c =
     (let n = (of_char c :: nat)
      in if (65 \<le> n \<and> n \<le> 90) \<or> (192 \<le> n \<and> n \<le> 222 \<and> n \<noteq> 215)
         then char_of (n + 32) else c)"

definition lower :: "string \<Rightarrow> string" where
  "lower s = map lower_char s"

text \<open>
  \<open>str.isspace()\<close> on one code point below 256: tab, line feed, vertical tab, form feed,
  carriage return, the separators U+001C..U+001F, space, next line (U+0085) and the
  no-break space (U+00A0).
\<close>

definition isspace :: "char \<Rightarrow> bool" where
  "isspace c =
     (let n = (of_char c :: nat)
      in (9 \<le> n \<and> n \<le> 13) \<or> (28 \<le> n \<and> n \<le> 32) \<or> n = 133 \<or> n = 160)"

text \<open>\<open>str.strip()\<close> with no argument: whitespace is dropped at both ends.\<close>

definition strip :: "string \<Rightarrow> string" where
  "strip s = rev (dropWhile isspace (rev (dropWhile isspace s)))"

text \<open>\<open>s.startswith(p)\<close>.\<close>

fun startswith :: "string \<Rightarrow> string \<Rightarrow> bool" where
  "startswith s [] = True"
| "startswith [] (p # ps) = False"
| "startswith (c # cs) (p # ps) = (c = p \<and> startswith cs ps)"

text \<open>The operator \<open>sub in s\<close> on strings: \<open>sub\<close> occurs in \<open>s\<close> as a contiguous run.\<close>

fun str_in :: "string \<Rightarrow> string \<Rightarrow> bool" where
  "str_in sub [] = (sub = [])"
| "str_in sub (c # cs) = (startswith (c # cs) sub \<or> str_in sub cs)"

text \<open>
  \<open>s.count(sub)\<close> for a non-empty \<open>sub\<close>: the number of non-overlapping occurrences,
  read from the left. The second argument of \<open>count_from\<close> is the number of characters
  still to be skipped after a match.
\<close>

fun count_from :: "string \<Rightarrow> nat \<Rightarrow> string \<Rightarrow> nat" where
  "count_from sub k [] = 0"
| "count_from sub (Suc k) (c # cs) = count_from sub k cs"
| "count_from sub 0 (c # cs) =
     (if startswith (c # cs) sub then Suc (count_from sub (length sub - 1) cs)
      else count_from sub 0 cs)"

definition str_count :: "string \<Rightarrow> string \<Rightarrow> nat" where
  "str_count s sub = count_from sub 0 s"

section \<open>Job records\<close>

text \<open>
  A job is the dict the fetchers build, with the six keys \<open>company\<close>, \<open>title\<close>,
  \<open>location\<close>, \<open>link\<close>, \<open>keywords\<close> and \<open>skills\<close>. Every value is a string except
  \<open>link\<close>, which \<open>fetch_remotive\<close> fills with \<open>j.get("url")\<close> and which is therefore
  \<open>None\<close> when the listing has no URL. The field of the key \<open>keywords\<close> is named
  \<open>job_keywords\<close>, since \<open>keywords\<close> is a reserved word of the theory language.
\<close>

record job =
  company :: string
  title :: string
  location :: string
  link :: "string option"
  job_keywords :: string
  skills :: string

section \<open>Deduplication\<close>

text \<open>
  The key computed in the loop of \<open>dedupe_jobs\<close>:
  \<^verbatim>\<open>(j.get("link") or "").strip() or (j.get("company","") + "|" + j.get("title",""))\<close>
\<close>

definition dedupe_key :: "job \<Rightarrow> string" where
  "dedupe_key j =
     (let l = strip (case link j of None \<Rightarrow> [] | Some s \<Rightarrow> s)
      in if l \<noteq> [] then l else company j @ ''|'' @ title j)"

text \<open>The loop of \<open>dedupe_jobs\<close> with its two variables, the set \<open>seen\<close> and the list \<open>out\<close>.\<close>

fun dedupe_loop :: "string set \<Rightarrow> job list \<Rightarrow> job list \<Rightarrow> job list" where
  "dedupe_loop seen out [] = out"
| "dedupe_loop seen out (j # jobs) =
     (let key = dedupe_key j
      in if key \<in> seen then dedupe_loop seen out jobs
         else dedupe_loop (insert key seen) (out @ [j]) jobs)"

definition dedupe_jobs :: "job list \<Rightarrow> job list" where
  "dedupe_jobs jobs = dedupe_loop {} [] jobs"

section \<open>Rendering\<close>

text \<open>
  What an f-string writes for \<open>j.get('link')\<close>: the string itself, or \<open>None\<close> spelled
  out when the value is \<open>None\<close>.
\<close>

definition format_value :: "string option \<Rightarrow> string" where
  "format_value v = (case v of None \<Rightarrow> ''None'' | Some s \<Rightarrow> s)"

text \<open>The f-string added to \<open>rows\<close> for one job. No value is escaped.\<close>

definition row :: "job \<Rightarrow> string" where
  "row j =
     ''<tr>'' @
     ''<td>'' @ company j @ ''</td>'' @
     ''<td>'' @ title j @ ''</td>'' @
     ''<td>'' @ location j @ ''</td>'' @
     ''<td><a href='' @ [CHR 0x27] @ format_value (link j) @ [CHR 0x27] @ ''>Apply</a></td>'' @
     ''<td>'' @ job_keywords j @ ''</td>'' @
     ''<td>'' @ skills j @ ''</td>'' @
     ''</tr>''"

fun build_rows :: "string \<Rightarrow> job list \<Rightarrow> string" where
  "build_rows rows [] = rows"
| "build_rows rows (j # jobs) = build_rows (rows @ row j) jobs"

text \<open>
  The dash of the heading is U+2014, beyond the code points of \<open>char\<close>; the heading
  carries it as the three bytes of its UTF-8 form. No property below reads the heading's
  length or its case.
\<close>

definition build_html_table :: "job list \<Rightarrow> string" where
  "build_html_table jobs =
     (let rows = build_rows [] jobs
      in ''<h2>Daily Remote Data Analyst Jobs '' @ [CHR 0xE2, CHR 0x80, CHR 0x94] @
           '' Consolidated</h2>'' @
         ''<p>Source: Remotive API + TopStartups + Wellfound (best-effort scraping)</p>'' @
         ''<table border='1' cellpadding='6' style='border-collapse:collapse;'>'' @
         ''<thead><tr><th>Company</th><th>Title</th><th>Location</th><th>Link</th>'' @
           ''<th>Keywords</th><th>Skills</th></tr></thead>'' @
         ''<tbody>'' @
         rows @
         ''</tbody></table>'')"

section \<open>Errors and responses\<close>

datatype error =
    RequestException
  | HTTPError nat
  | ValueError
  | AttributeError
  | RuntimeError string

text \<open>
  The calls into \<open>requests\<close>, \<open>json\<close> and \<open>BeautifulSoup\<close> are the program's input.
  \<open>requests.get\<close> raises or returns a response; on a response, \<open>raise_for_status\<close>
  raises or not, and reading the document (\<open>resp.json().get("jobs", [])\<close>, or
  \<open>BeautifulSoup(resp.text, "html.parser").select("a[href]")\<close>) raises or gives the data.
\<close>

record 'a response =
  raise_for_status :: "error option"
  document :: "error + 'a"

type_synonym 'a requests_get = "error + 'a response"

section \<open>The Remotive fetcher\<close>

text \<open>
  One value of a listing of the JSON answer: the key is missing, or it holds \<open>null\<close>, or
  it holds a string.
\<close>

datatype jfield = Absent | Null | Str string

record listing =
  listing_title :: jfield
  company_name :: jfield
  candidate_required_location :: jfield
  url :: jfield

text \<open>\<open>j.get(key)\<close>: \<open>None\<close> for a missing key and for \<open>null\<close>.\<close>

definition get :: "jfield \<Rightarrow> string option" where
  "get v = (case v of Absent \<Rightarrow> None | Null \<Rightarrow> None | Str s \<Rightarrow> Some s)"

text \<open>\<open>j.get(key, default)\<close>: the default stands in for a missing key only.\<close>

definition get_default :: "jfield \<Rightarrow> string \<Rightarrow> string option" where
  "get_default v d = (case v of Absent \<Rightarrow> Some d | Null \<Rightarrow> None | Str s \<Rightarrow> Some s)"

text \<open>\<open>j.get(key) or default\<close>: the default stands in for \<open>None\<close> and for the empty string.\<close>

definition get_or :: "jfield \<Rightarrow> string \<Rightarrow> string" where
  "get_or v d = (case get v of None \<Rightarrow> d | Some s \<Rightarrow> if s = [] then d else s)"

text \<open>
  The loop of \<open>fetch_remotive\<close>. \<open>title.lower()\<close> raises \<open>AttributeError\<close> on a title
  that is \<open>None\<close>, which leaves the loop.
\<close>

fun remotive_loop :: "job list \<Rightarrow> listing list \<Rightarrow> error + job list" where
  "remotive_loop jobs [] = Inr jobs"
| "remotive_loop jobs (j # data) =
     (case get_default (listing_title j) [] of
        None \<Rightarrow> Inl AttributeError
      | Some t \<Rightarrow>
          if str_in ''data analyst'' (lower t) \<or>
             str_in ''data'' (lower t) \<and> str_in ''analyst'' (lower t)
          then remotive_loop
                 (jobs @ [\<lparr>company = get_or (company_name j) ''-'',
                           title = t,
                           location = get_or (candidate_required_location j) ''Remote'',
                           link = get (url j),
                           job_keywords = ''analysis; reporting; dashboards; metrics; data'',
                           skills = ''Python; SQL; Excel; BI tools; statistics''\<rparr>])
                 data
          else remotive_loop jobs data)"

text \<open>The body of the \<open>try\<close>, then the function with its \<open>except Exception\<close>.\<close>

definition fetch_remotive_try :: "listing list requests_get \<Rightarrow> error + job list" where
  "fetch_remotive_try r =
     (case r of
        Inl e \<Rightarrow> Inl e
      | Inr resp \<Rightarrow>
          (case raise_for_status resp of
             Some e \<Rightarrow> Inl e
           | None \<Rightarrow>
               (case document resp of
                  Inl e \<Rightarrow> Inl e
                | Inr data \<Rightarrow> remotive_loop [] data)))"

definition fetch_remotive :: "listing list requests_get \<Rightarrow> job list" where
  "fetch_remotive r = (case fetch_remotive_try r of Inl e \<Rightarrow> [] | Inr jobs \<Rightarrow> jobs)"

section \<open>The two scraping fetchers\<close>

text \<open>
  An anchor selected by \<open>a[href]\<close>: its text, as \<open>a.get_text(" ", strip=True)\<close> gives
  it, and its \<open>href\<close>. \<open>urljoin\<close> of \<open>urllib.parse\<close> is a parameter; it raises
  \<open>ValueError\<close> on some malformed references, so it returns an error or the joined URL.
\<close>

record anchor =
  get_text :: string
  href :: string

type_synonym urljoin = "string \<Rightarrow> string \<Rightarrow> error + string"

fun topstartups_loop :: "urljoin \<Rightarrow> job list \<Rightarrow> anchor list \<Rightarrow> error + job list" where
  "topstartups_loop uj jobs [] = Inr jobs"
| "topstartups_loop uj jobs (a # as) =
     (let txt = get_text a; h = href a
      in if h = [] \<or> txt = [] then topstartups_loop uj jobs as
         else if str_in ''analyst'' (lower txt) \<and> length txt < 200
         then (case (if startswith h ''http'' then Inr h
                     else uj ''https://topstartups.io'' h) of
                 Inl e \<Rightarrow> Inl e
               | Inr full \<Rightarrow>
                   topstartups_loop uj
                     (jobs @ [\<lparr>company = ''-'',
                               title = txt,
                               location = ''Remote'',
                               link = Some full,
                               job_keywords = ''data; metrics; dashboards; insights; reporting'',
                               skills = ''SQL; Python; visualization; data pipelines; statistics''\<rparr>])
                     as)
         else topstartups_loop uj jobs as)"

definition fetch_topstartups_try :: "urljoin \<Rightarrow> anchor list requests_get \<Rightarrow> error + job list" where
  "fetch_topstartups_try uj r =
     (case r of
        Inl e \<Rightarrow> Inl e
      | Inr resp \<Rightarrow>
          (case raise_for_status resp of
             Some e \<Rightarrow> Inl e
           | None \<Rightarrow>
               (case document resp of
                  Inl e \<Rightarrow> Inl e
                | Inr soup \<Rightarrow> topstartups_loop uj [] soup)))"

definition fetch_topstartups :: "urljoin \<Rightarrow> anchor list requests_get \<Rightarrow> job list" where
  "fetch_topstartups uj r =
     (case fetch_topstartups_try uj r of Inl e \<Rightarrow> [] | Inr jobs \<Rightarrow> jobs)"

fun wellfound_loop :: "urljoin \<Rightarrow> string \<Rightarrow> job list \<Rightarrow> anchor list \<Rightarrow> error + job list" where
  "wellfound_loop uj base jobs [] = Inr jobs"
| "wellfound_loop uj base jobs (a # as) =
     (let txt = get_text a; h = href a
      in if h = [] \<or> txt = [] then wellfound_loop uj base jobs as
         else if str_in ''data analyst'' (lower txt) \<or>
                 (str_in ''data'' (lower txt) \<and> str_in ''analyst'' (lower txt))
         then (case (if startswith h ''http'' then Inr h else uj base h) of
                 Inl e \<Rightarrow> Inl e
               | Inr full \<Rightarrow>
                   wellfound_loop uj base
                     (jobs @ [\<lparr>company = ''-'',
                               title = txt,
                               location = ''Remote'',
                               link = Some full,
                               job_keywords = ''data; metrics; reporting; dashboards; insights'',
                               skills = ''SQL; Python; Looker/Tableau; Excel; stats''\<rparr>])
                     as)
         else wellfound_loop uj base jobs as)"

definition fetch_wellfound_try :: "urljoin \<Rightarrow> anchor list requests_get \<Rightarrow> error + job list" where
  "fetch_wellfound_try uj r =
     (let base = ''https://wellfound.com''
      in case r of
           Inl e \<Rightarrow> Inl e
         | Inr resp \<Rightarrow>
             (case raise_for_status resp of
                Some e \<Rightarrow> Inl e
              | None \<Rightarrow>
                  (case document resp of
                     Inl e \<Rightarrow> Inl e
                   | Inr soup \<Rightarrow> wellfound_loop uj base [] soup)))"

definition fetch_wellfound :: "urljoin \<Rightarrow> anchor list requests_get \<Rightarrow> job list" where
  "fetch_wellfound uj r =
     (case fetch_wellfound_try uj r of Inl e \<Rightarrow> [] | Inr jobs \<Rightarrow> jobs)"

section \<open>The notifier\<close>

text \<open>
  The process environment is a map from names to values; \<open>os.getenv(name)\<close> is the
  lookup and \<open>os.getenv(name, default)\<close> the lookup with a default. The three module
  constants are functions of it.
\<close>

type_synonym environ = "string \<rightharpoonup> string"

definition SENDGRID_API_KEY :: "environ \<Rightarrow> string option" where
  "SENDGRID_API_KEY env = env ''SENDGRID_API_KEY''"

definition TO_EMAIL :: "environ \<Rightarrow> string" where
  "TO_EMAIL env = (case env ''TO_EMAIL'' of None \<Rightarrow> ''Tanko8668@gmail.com'' | Some v \<Rightarrow> v)"

definition FROM_EMAIL :: "environ \<Rightarrow> string" where
  "FROM_EMAIL env = (case env ''FROM_EMAIL'' of None \<Rightarrow> TO_EMAIL env | Some v \<Rightarrow> v)"

record Mail =
  from_email :: string
  to_emails :: string
  subject :: string
  html_content :: string

text \<open>
  What \<open>send_email\<close> does, in order: it constructs the message, hands it to the client's
  \<open>send\<close> (the network call, made with the API key) and prints the status code.
\<close>

datatype event =
    Constructed Mail
  | Send_called string Mail
  | Printed_status nat

text \<open>
  The provider is a parameter: \<open>sg.send(message)\<close> of a client made with a key raises or
  returns a status code.
\<close>

type_synonym sendgrid = "string \<Rightarrow> Mail \<Rightarrow> error + nat"

text \<open>
  \<open>send_email\<close> returns \<open>Inl\<close> the exception it raises, or \<open>Inr ()\<close>, together with the
  events that took place. The test \<open>not SENDGRID_API_KEY\<close> is true of \<open>None\<close> and of the
  empty string.
\<close>

definition send_email :: "environ \<Rightarrow> sendgrid \<Rightarrow> string \<Rightarrow> (error + unit) \<times> event list" where
  "send_email env sg html_body =
     (case SENDGRID_API_KEY env of
        None \<Rightarrow> (Inl (RuntimeError ''SENDGRID_API_KEY not set in environment''), [])
      | Some key \<Rightarrow>
          if key = []
          then (Inl (RuntimeError ''SENDGRID_API_KEY not set in environment''), [])
          else
            (let message = \<lparr>from_email = FROM_EMAIL env,
                            to_emails = TO_EMAIL env,
                            subject = ''Daily Remote Data Analyst Jobs'',
                            html_content = html_body\<rparr>
             in case sg key message of
                  Inl e \<Rightarrow> (Inl e, [Constructed message, Send_called key message])
                | Inr status_code \<Rightarrow>
                    (Inr (), [Constructed message, Send_called key message,
                              Printed_status status_code])))"

section \<open>The orchestrator\<close>

text \<open>
  Everything \<open>main\<close> reads from outside: the environment, the answers to the three HTTP
  requests, and the two library functions. The pauses between the requests and the lines
  the fetchers print change no value and are left out.
\<close>

record world =
  environ :: environ
  remotive_api :: "listing list requests_get"
  topstartups_page :: "anchor list requests_get"
  wellfound_page :: "anchor list requests_get"
  urljoin :: urljoin
  sendgrid :: sendgrid

text \<open>The list \<open>all_jobs\<close> of \<open>main\<close> after its three \<open>extend\<close> calls.\<close>

definition all_jobs :: "world \<Rightarrow> job list" where
  "all_jobs w =
     (let all_jobs = [];
          all_jobs = all_jobs @ fetch_remotive (remotive_api w);
          all_jobs = all_jobs @ fetch_topstartups (urljoin w) (topstartups_page w);
          all_jobs = all_jobs @ fetch_wellfound (urljoin w) (wellfound_page w)
      in all_jobs)"

definition main :: "world \<Rightarrow> (error + unit) \<times> event list" where
  "main w =
     (let jobs = dedupe_jobs (all_jobs w)
      in if jobs = []
         then send_email (environ w) (sendgrid w) ''<p>No remote Data Analyst jobs found today.</p>''
         else (let html = build_html_table jobs
               in send_email (environ w) (sendgrid w) html))"

section \<open>Notions of the specification\<close>

text \<open>
  A text contains a pattern case-insensitively when one of its contiguous parts equals the
  pattern up to the case of the letters.
\<close>

definition ci_contains :: "string \<Rightarrow> string \<Rightarrow> bool" where
  "ci_contains t p \<longleftrightarrow> (\<exists>u. sublist u t \<and> lower u = lower p)"

text \<open>
  The rule of the specification: the text contains "data analyst", or it contains both
  "data" and "analyst".
\<close>

definition title_rule :: "string \<Rightarrow> bool" where
  "title_rule t \<longleftrightarrow>
     ci_contains t ''data analyst'' \<or> (ci_contains t ''data'' \<and> ci_contains t ''analyst'')"

text \<open>A configuration value that is not set: absent, or the empty string.\<close>

definition not_set :: "string option \<Rightarrow> bool" where
  "not_set k \<longleftrightarrow> k = None \<or> k = Some []"

text \<open>The anchors each scraping fetcher turns into a job.\<close>

definition wellfound_accepts :: "anchor \<Rightarrow> bool" where
  "wellfound_accepts a \<longleftrightarrow> href a \<noteq> [] \<and> get_text a \<noteq> [] \<and> title_rule (get_text a)"

definition topstartups_accepts :: "anchor \<Rightarrow> bool" where
  "topstartups_accepts a \<longleftrightarrow>
     href a \<noteq> [] \<and> get_text a \<noteq> [] \<and> ci_contains (get_text a) ''analyst'' \<and>
     length (get_text a) < 200"

text \<open>
  The positions of a list of jobs that hold the first occurrence of their key, in
  increasing order.
\<close>

definition first_positions :: "job list \<Rightarrow> nat list" where
  "first_positions jobs =
     filter (\<lambda>i. dedupe_key (jobs ! i) \<notin> dedupe_key ` set (take i jobs)) [0..<length jobs]"

text \<open>A request that was answered with a good status and a readable document.\<close>

definition answered :: "'a \<Rightarrow> 'a requests_get" where
  "answered d = Inr \<lparr>raise_for_status = None, document = Inr d\<rparr>"


text \<open>The title \<open>fetch_remotive\<close> reads from a listing whose title is not \<open>null\<close>.\<close>

definition title_of :: "listing \<Rightarrow> string" where
  "title_of j = (case listing_title j of Str s \<Rightarrow> s | _ \<Rightarrow> [])"

text \<open>The text \<open>build_html_table\<close> writes before the rows, and the text after them.\<close>

definition table_head :: string where
  "table_head =
     ''<h2>Daily Remote Data Analyst Jobs '' @ [CHR 0xE2, CHR 0x80, CHR 0x94] @
       '' Consolidated</h2>'' @
     ''<p>Source: Remotive API + TopStartups + Wellfound (best-effort scraping)</p>'' @
     ''<table border='1' cellpadding='6' style='border-collapse:collapse;'>'' @
     ''<thead><tr><th>Company</th><th>Title</th><th>Location</th><th>Link</th>'' @
       ''<th>Keywords</th><th>Skills</th></tr></thead>'' @
     ''<tbody>''"

definition table_foot :: string where
  "table_foot = ''</tbody></table>''"

section \<open>Example data\<close>

definition acme :: job where
  "acme = \<lparr>company = ''Acme'', title = ''Data Analyst'', location = ''Remote'',
            link = Some ''https://x/1'', job_keywords = ''k'', skills = ''s''\<rparr>"

text \<open>
  \<open>urljoin\<close> on the references that are absolute paths, against a base with no path: the
  base followed by the reference.
\<close>

definition join_path :: urljoin where
  "join_path base h = Inr (base @ h)"

text \<open>A provider that accepts every message with status 202.\<close>

definition accepting :: sendgrid where
  "accepting key message = Inr 202"

text \<open>A run in which all three requests fail and the API key is configured.\<close>

definition world_down :: world where
  "world_down =
     \<lparr>environ = [''SENDGRID_API_KEY'' \<mapsto> ''SG.key''],
      remotive_api = Inl RequestException,
      topstartups_page = Inr \<lparr>raise_for_status = Some (HTTPError 503), document = Inr []\<rparr>,
      wellfound_page = Inr \<lparr>raise_for_status = None, document = Inl ValueError\<rparr>,
      urljoin = join_path,
      sendgrid = accepting\<rparr>"

text \<open>
  A run in which Remotive lists two postings, the TopStartups request fails, and the
  Wellfound page has one anchor whose reference is the URL of the first posting.
\<close>

definition world_scenario :: world where
  "world_scenario =
     \<lparr>environ = [''SENDGRID_API_KEY'' \<mapsto> ''SG.key''],
      remotive_api =
        answered
          [\<lparr>listing_title = Str ''Data Analyst'', company_name = Str ''Acme'',
             candidate_required_location = Str ''Worldwide'', url = Str ''https://x/1''\<rparr>,
           \<lparr>listing_title = Str ''Senior Data Analyst'', company_name = Null,
             candidate_required_location = Absent, url = Str ''https://x/2''\<rparr>],
      topstartups_page = Inl RequestException,
      wellfound_page =
        answered [\<lparr>get_text = ''Data Analyst at Acme'', href = ''https://x/1''\<rparr>],
      urljoin = join_path,
      sendgrid = accepting\<rparr>"

text \<open>
  The same run, except that both Remotive postings carry the same URL.
\<close>

definition world_shared_link :: world where
  "world_shared_link =
     \<lparr>environ = [''SENDGRID_API_KEY'' \<mapsto> ''SG.key''],
      remotive_api =
        answered
          [\<lparr>listing_title = Str ''Data Analyst'', company_name = Str ''Acme'',
             candidate_required_location = Str ''Worldwide'', url = Str ''https://x/1''\<rparr>,
           \<lparr>listing_title = Str ''Senior Data Analyst'', company_name = Str ''Acme'',
             candidate_required_location = Str ''Worldwide'', url = Str ''https://x/1''\<rparr>],
      topstartups_page = Inl RequestException,
      wellfound_page =
        answered [\<lparr>get_text = ''Data Analyst at Acme'', href = ''https://x/1''\<rparr>],
      urljoin = join_path,
      sendgrid = accepting\<rparr>"

text \<open>
  A \<open>urljoin\<close> that never raises and writes down the two arguments it was called with.
\<close>

definition join_symbolic :: urljoin where
  "join_symbolic base h = Inr (''urljoin('' @ base @ '', '' @ h @ '')'')"

text \<open>A \<open>urljoin\<close> that raises on every reference.\<close>

definition join_raising :: urljoin where
  "join_raising base h = Inl ValueError"

text \<open>Two pages with three anchors each, and an answer of Remotive with three listings.\<close>

definition page_sample :: "anchor list" where
  "page_sample =
     [\<lparr>get_text = ''Senior Data Analyst'', href = ''/jobs/1''\<rparr>,
      \<lparr>get_text = ''Financial Analyst'', href = ''/jobs/7''\<rparr>,
      \<lparr>get_text = ''Careers'', href = ''/careers''\<rparr>]"

definition page_links :: "anchor list" where
  "page_links =
     [\<lparr>get_text = ''Data Analyst'', href = ''mailto:x''\<rparr>,
      \<lparr>get_text = ''Data Analyst II'', href = ''httpx/y''\<rparr>,
      \<lparr>get_text = ''Lead Data Analyst'', href = ''https://x/3''\<rparr>]"

definition listings_sample :: "listing list" where
  "listings_sample =
     [\<lparr>listing_title = Str ''Senior Data Analyst'', company_name = Str ''Acme'',
        candidate_required_location = Null, url = Str ''https://x/1''\<rparr>,
      \<lparr>listing_title = Str ''Data Scientist'', company_name = Str ''Acme'',
        candidate_required_location = Null, url = Str ''https://x/2''\<rparr>,
      \<lparr>listing_title = Str ''Analyst of Data Systems'', company_name = Absent,
        candidate_required_location = Str ''EU'', url = Absent\<rparr>]"

section \<open>Strings: the operations against their meaning\<close>

lemma startswith_prefix: "startswith s p \<longleftrightarrow> prefix p s"
  by (induction s p rule: startswith.induct) auto

lemma str_in_sublist: "str_in sub s \<longleftrightarrow> sublist sub s"
  by (induction s) (simp_all add: startswith_prefix sublist_Cons_right)

lemma sublist_lower: "sublist p (lower t) \<longleftrightarrow> (\<exists>u. sublist u t \<and> lower u = p)"
proof
  assume "sublist p (lower t)"
  then obtain ps ss where "map lower_char t = ps @ p @ ss"
    by (auto simp: sublist_def lower_def)
  then obtain us vs where t: "t = us @ vs" and vs: "map lower_char vs = p @ ss"
    by (metis map_eq_append_conv)
  from vs obtain u w where "vs = u @ w" and "map lower_char u = p"
    by (metis map_eq_append_conv)
  with t show "\<exists>u. sublist u t \<and> lower u = p"
    by (auto simp: lower_def)
next
  assume "\<exists>u. sublist u t \<and> lower u = p"
  then obtain u ps ss where "t = ps @ u @ ss" and "lower u = p"
    by (auto simp: sublist_def)
  then have "lower t = lower ps @ p @ lower ss"
    by (auto simp: lower_def)
  then show "sublist p (lower t)"
    by (simp only: sublist_appendI)
qed

lemma str_in_lower: "lower p = p \<Longrightarrow> str_in p (lower t) \<longleftrightarrow> ci_contains t p"
  by (simp add: str_in_sublist sublist_lower ci_contains_def)

lemma lower_patterns:
  "lower ''data analyst'' = ''data analyst''"
  "lower ''data'' = ''data''"
  "lower ''analyst'' = ''analyst''"
  by (simp_all add: lower_def lower_char_def)

lemma code_rule:
  "str_in ''data analyst'' (lower t) \<or> str_in ''data'' (lower t) \<and> str_in ''analyst'' (lower t)
     \<longleftrightarrow> title_rule t"
  by (simp add: str_in_lower lower_patterns title_rule_def)

section \<open>Deduplication: the loop\<close>

lemma dedupe_loop_Cons: "dedupe_loop seen (x # out) jobs = x # dedupe_loop seen out jobs"
  by (induction jobs arbitrary: seen out) (simp_all add: Let_def)

lemma dedupe_loop_keys:
  "dedupe_key ` set (dedupe_loop seen [] jobs) = dedupe_key ` set jobs - seen"
  by (induction jobs arbitrary: seen) (auto simp: Let_def dedupe_loop_Cons)

lemma dedupe_loop_distinct: "distinct (map dedupe_key (dedupe_loop seen [] jobs))"
proof (induction jobs arbitrary: seen)
  case Nil
  show ?case by simp
next
  case (Cons j jobs)
  have "dedupe_key j \<notin> dedupe_key ` set (dedupe_loop (insert (dedupe_key j) seen) [] jobs)"
    by (simp add: dedupe_loop_keys)
  with Cons show ?case
    by (simp add: Let_def dedupe_loop_Cons)
qed

lemma dedupe_loop_snoc:
  "dedupe_loop seen [] (jobs @ [j]) =
     dedupe_loop seen [] jobs @
       (if dedupe_key j \<in> seen \<union> dedupe_key ` set jobs then [] else [j])"
  by (induction jobs arbitrary: seen) (auto simp: Let_def dedupe_loop_Cons)

lemma dedupe_loop_fixed:
  "distinct (map dedupe_key jobs) \<Longrightarrow> dedupe_key ` set jobs \<inter> seen = {} \<Longrightarrow>
     dedupe_loop seen [] jobs = jobs"
proof (induction jobs arbitrary: seen)
  case Nil
  show ?case by simp
next
  case (Cons j jobs)
  from Cons.prems have "dedupe_key ` set jobs \<inter> insert (dedupe_key j) seen = {}"
    by auto
  with Cons show ?case
    by (auto simp: Let_def dedupe_loop_Cons)
qed

lemma dedupe_loop_subseq: "subseq (dedupe_loop seen [] jobs) jobs"
  by (induction jobs arbitrary: seen) (auto simp: Let_def dedupe_loop_Cons)

lemma dedupe_loop_first_positions:
  "dedupe_loop {} [] jobs = map ((!) jobs) (first_positions jobs)"
proof (induction jobs rule: rev_induct)
  case Nil
  show ?case by (simp add: first_positions_def)
next
  case (snoc j jobs)
  have a: "filter (\<lambda>i. dedupe_key ((jobs @ [j]) ! i) \<notin> dedupe_key ` set (take i (jobs @ [j])))
             [0..<length jobs] =
           filter (\<lambda>i. dedupe_key (jobs ! i) \<notin> dedupe_key ` set (take i jobs)) [0..<length jobs]"
    by (rule filter_cong) (auto simp: nth_append)
  have b: "map ((!) (jobs @ [j])) (first_positions jobs) = map ((!) jobs) (first_positions jobs)"
    by (rule map_cong) (auto simp: first_positions_def nth_append)
  show ?case
    using snoc a b by (simp add: dedupe_loop_snoc first_positions_def)
qed

section \<open>Deduplication: the claims\<close>

text \<open>
  C3. For every list of jobs, no two entries of \<open>dedupe_jobs jobs\<close> have the same identity
  key: the keys of the result, read in order, are pairwise different. The key of a job is
  its link with the whitespace at both ends removed when that is not empty, and otherwise
  the company, a bar and the title.
\<close>

theorem dedupe_jobs_keys_distinct:
  "distinct (map dedupe_key (dedupe_jobs jobs)) \<and>
   dedupe_key j =
     (if strip (case link j of None \<Rightarrow> [] | Some s \<Rightarrow> s) = [] then company j @ ''|'' @ title j
      else strip (case link j of None \<Rightarrow> [] | Some s \<Rightarrow> s))"
  by (simp add: dedupe_jobs_def dedupe_loop_distinct dedupe_key_def Let_def)

text \<open>
  C4. For every list of jobs, \<open>dedupe_jobs\<close> returns exactly the entries at the positions
  that hold the first occurrence of their key, in the order of the input; the result is a
  subsequence of the input; and deduplicating a second time changes nothing.
\<close>

theorem dedupe_jobs_first_seen_idempotent:
  "dedupe_jobs jobs = map ((!) jobs) (first_positions jobs) \<and>
   subseq (dedupe_jobs jobs) jobs \<and>
   dedupe_jobs (dedupe_jobs jobs) = dedupe_jobs jobs"
proof -
  have first: "dedupe_jobs jobs = map ((!) jobs) (first_positions jobs)"
    by (simp add: dedupe_jobs_def dedupe_loop_first_positions)
  have sub: "subseq (dedupe_jobs jobs) jobs"
    by (simp add: dedupe_jobs_def dedupe_loop_subseq)
  have "dedupe_loop {} [] (dedupe_loop {} [] jobs) = dedupe_loop {} [] jobs"
    by (rule dedupe_loop_fixed) (simp_all add: dedupe_loop_distinct)
  then have "dedupe_jobs (dedupe_jobs jobs) = dedupe_jobs jobs"
    by (simp add: dedupe_jobs_def)
  with first sub show ?thesis
    by blast
qed

section \<open>Rendering: the claims\<close>

lemma build_rows_concat: "build_rows rows jobs = rows @ concat (map row jobs)"
  by (induction jobs arbitrary: rows) simp_all

lemma build_html_table_rows:
  "build_html_table jobs = table_head @ concat (map row jobs) @ table_foot"
  by (simp add: build_html_table_def build_rows_concat table_head_def table_foot_def)

lemma dedupe_jobs_Nil: "dedupe_jobs jobs = [] \<longleftrightarrow> jobs = []"
  by (cases jobs) (simp_all add: dedupe_jobs_def Let_def dedupe_loop_Cons)

text \<open>
  C9. Rendering the single job with company "Acme", title "Data Analyst", location
  "Remote", link "https://x/1", keywords "k" and skills "s" gives the heading, the
  attribution and the table with the header row Company, Title, Location, Link, Keywords,
  Skills, whose body is exactly one row: the cells "Acme", "Data Analyst", "Remote", an
  anchor to "https://x/1" labelled "Apply", "k" and "s", in that order.
\<close>

theorem build_html_table_acme:
  "build_html_table [acme] =
     ''<h2>Daily Remote Data Analyst Jobs '' @ [CHR 0xE2, CHR 0x80, CHR 0x94] @
     '' Consolidated</h2>'' @
     ''<p>Source: Remotive API + TopStartups + Wellfound (best-effort scraping)</p>'' @
     ''<table border='1' cellpadding='6' style='border-collapse:collapse;'>'' @
     ''<thead><tr><th>Company</th><th>Title</th><th>Location</th><th>Link</th>'' @
     ''<th>Keywords</th><th>Skills</th></tr></thead>'' @
     ''<tbody>'' @
     ''<tr><td>Acme</td><td>Data Analyst</td><td>Remote</td>'' @
     ''<td><a href='https://x/1'>Apply</a></td><td>k</td><td>s</td></tr>'' @
     ''</tbody></table>'' \<and>
   build_html_table [acme] = table_head @ row acme @ table_foot \<and>
   str_count (row acme) ''<tr>'' = 1 \<and> str_count (row acme) ''</tr>'' = 1"
  by (simp add: build_html_table_def acme_def row_def format_value_def table_head_def
      table_foot_def str_count_def)

text \<open>
  C2. Rendering an empty job list gives the fixed "no jobs found" paragraph and no table
  element: when the deduplicated list is empty (which is when the three fetchers returned
  nothing), the body \<open>main\<close> hands to the notifier is exactly
  "<p>No remote Data Analyst jobs found today.</p>", in which "<table" does not occur.
  The guard of \<open>main\<close> decides this before the table is built: \<open>build_html_table\<close> is
  applied to the deduplicated list only when that list is not empty.
\<close>

theorem main_empty_sends_notice:
  "(dedupe_jobs (all_jobs w) = [] \<longrightarrow>
      main w = send_email (environ w) (sendgrid w)
                 ''<p>No remote Data Analyst jobs found today.</p>'') \<and>
   \<not> str_in ''<table'' ''<p>No remote Data Analyst jobs found today.</p>'' \<and>
   (all_jobs w = [] \<longrightarrow>
      main w = send_email (environ w) (sendgrid w)
                 ''<p>No remote Data Analyst jobs found today.</p>'') \<and>
   (dedupe_jobs (all_jobs w) \<noteq> [] \<longrightarrow>
      main w = send_email (environ w) (sendgrid w)
                 (build_html_table (dedupe_jobs (all_jobs w))))"
proof -
  have empty: "main w = send_email (environ w) (sendgrid w)
                 ''<p>No remote Data Analyst jobs found today.</p>''"
    if "dedupe_jobs (all_jobs w) = []"
    using that by (simp add: main_def)
  have none: "\<not> str_in ''<table'' ''<p>No remote Data Analyst jobs found today.</p>''"
    by simp
  have no_jobs: "main w = send_email (environ w) (sendgrid w)
                   ''<p>No remote Data Analyst jobs found today.</p>''"
    if "all_jobs w = []"
    using that empty by (simp add: dedupe_jobs_Nil)
  have table: "main w = send_email (environ w) (sendgrid w)
                 (build_html_table (dedupe_jobs (all_jobs w)))"
    if "dedupe_jobs (all_jobs w) \<noteq> []"
    using that by (simp add: main_def Let_def)
  show ?thesis
  proof (intro conjI impI)
    show "\<not> str_in ''<table'' ''<p>No remote Data Analyst jobs found today.</p>''"
      by (rule none)
  next
    assume "dedupe_jobs (all_jobs w) = []"
    then show "main w = send_email (environ w) (sendgrid w)
                 ''<p>No remote Data Analyst jobs found today.</p>''"
      by (rule empty)
  next
    assume "all_jobs w = []"
    then show "main w = send_email (environ w) (sendgrid w)
                 ''<p>No remote Data Analyst jobs found today.</p>''"
      by (rule no_jobs)
  next
    assume "dedupe_jobs (all_jobs w) \<noteq> []"
    then show "main w = send_email (environ w) (sendgrid w)
                 (build_html_table (dedupe_jobs (all_jobs w)))"
      by (rule table)
  qed
qed

lemma all_jobs_world_down: "all_jobs world_down = []"
  by (simp add: all_jobs_def world_down_def fetch_remotive_def fetch_remotive_try_def
      fetch_topstartups_def fetch_topstartups_try_def fetch_wellfound_def
      fetch_wellfound_try_def)

theorem main_empty_sends_notice_witness:
  "main world_down =
     (Inr (),
      [Constructed \<lparr>from_email = ''Tanko8668@gmail.com'', to_emails = ''Tanko8668@gmail.com'',
                     subject = ''Daily Remote Data Analyst Jobs'',
                     html_content = ''<p>No remote Data Analyst jobs found today.</p>''\<rparr>,
       Send_called ''SG.key''
         \<lparr>from_email = ''Tanko8668@gmail.com'', to_emails = ''Tanko8668@gmail.com'',
          subject = ''Daily Remote Data Analyst Jobs'',
          html_content = ''<p>No remote Data Analyst jobs found today.</p>''\<rparr>,
       Printed_status 202])"
proof -
  have "dedupe_jobs (all_jobs world_down) = []"
    by (simp add: all_jobs_world_down dedupe_jobs_def)
  with main_empty_sends_notice [of world_down]
  have "main world_down =
          send_email (environ world_down) (sendgrid world_down)
            ''<p>No remote Data Analyst jobs found today.</p>''"
    by blast
  then show ?thesis
    by (simp add: world_down_def send_email_def SENDGRID_API_KEY_def TO_EMAIL_def
        FROM_EMAIL_def accepting_def Let_def)
qed

section \<open>The fetchers: their loops\<close>

lemma fetch_remotive_answered:
  "fetch_remotive (answered data) =
     (case remotive_loop [] data of Inl e \<Rightarrow> [] | Inr jobs \<Rightarrow> jobs)"
  by (simp add: fetch_remotive_def fetch_remotive_try_def answered_def)

lemma fetch_topstartups_answered:
  "fetch_topstartups uj (answered as) =
     (case topstartups_loop uj [] as of Inl e \<Rightarrow> [] | Inr jobs \<Rightarrow> jobs)"
  by (simp add: fetch_topstartups_def fetch_topstartups_try_def answered_def)

lemma fetch_wellfound_answered:
  "fetch_wellfound uj (answered as) =
     (case wellfound_loop uj ''https://wellfound.com'' [] as of
        Inl e \<Rightarrow> [] | Inr jobs \<Rightarrow> jobs)"
  by (simp add: fetch_wellfound_def fetch_wellfound_try_def answered_def)

lemma title_rule_eval:
  "title_rule t \<longleftrightarrow>
     str_in ''data analyst'' (lower t) \<or> str_in ''data'' (lower t) \<and> str_in ''analyst'' (lower t)"
  by (simp add: code_rule)

lemma analyst_rule: "str_in ''analyst'' (lower t) \<longleftrightarrow> ci_contains t ''analyst''"
  by (simp add: str_in_lower lower_patterns)

lemma accepts_eval:
  "wellfound_accepts a \<longleftrightarrow>
     href a \<noteq> [] \<and> get_text a \<noteq> [] \<and>
     (str_in ''data analyst'' (lower (get_text a)) \<or>
      str_in ''data'' (lower (get_text a)) \<and> str_in ''analyst'' (lower (get_text a)))"
  "topstartups_accepts a \<longleftrightarrow>
     href a \<noteq> [] \<and> get_text a \<noteq> [] \<and> str_in ''analyst'' (lower (get_text a)) \<and>
     length (get_text a) < 200"
  by (simp_all add: wellfound_accepts_def topstartups_accepts_def title_rule_eval
      analyst_rule [symmetric])

lemmas eval_strings = lower_def lower_char_def char_of_eq_iff

lemmas eval_fetch =
  fetch_remotive_answered fetch_wellfound_answered fetch_topstartups_def
  fetch_topstartups_try_def get_default_def get_or_def get_def eval_strings

lemmas eval_dedupe = dedupe_jobs_def dedupe_key_def strip_def isspace_def Let_def

lemma remotive_loop_titles:
  "\<forall>j\<in>set data. listing_title j \<noteq> Null \<Longrightarrow>
     \<exists>out. remotive_loop jobs data = Inr (jobs @ out) \<and>
           map title out = filter title_rule (map title_of data)"
proof (induction data arbitrary: jobs)
  case Nil
  show ?case by simp
next
  case (Cons j data)
  then have ih: "\<And>jobs. \<exists>out. remotive_loop jobs data = Inr (jobs @ out) \<and>
                   map title out = filter title_rule (map title_of data)"
    by simp
  from Cons.prems obtain t where t: "get_default (listing_title j) [] = Some t" "title_of j = t"
    by (cases "listing_title j") (simp_all add: get_default_def title_of_def)
  show ?case
  proof (cases "title_rule t")
    case True
    let ?new = "\<lparr>company = get_or (company_name j) ''-'', title = t,
                  location = get_or (candidate_required_location j) ''Remote'',
                  link = get (url j),
                  job_keywords = ''analysis; reporting; dashboards; metrics; data'',
                  skills = ''Python; SQL; Excel; BI tools; statistics''\<rparr>"
    from ih [of "jobs @ [?new]"] obtain out where
      "remotive_loop (jobs @ [?new]) data = Inr ((jobs @ [?new]) @ out)"
      "map title out = filter title_rule (map title_of data)"
      by blast
    with t True have "remotive_loop jobs (j # data) = Inr (jobs @ (?new # out)) \<and>
        map title (?new # out) = filter title_rule (map title_of (j # data))"
      by (simp add: code_rule)
    then show ?thesis by blast
  next
    case False
    with t ih [of jobs] show ?thesis
      by (simp add: code_rule)
  qed
qed


lemma wellfound_loop_out:
  assumes "\<forall>a\<in>set as. wellfound_accepts a \<and> \<not> startswith (href a) ''http'' \<longrightarrow>
             uj base (href a) = Inr (f (href a))"
  shows "\<exists>out. wellfound_loop uj base jobs as = Inr (jobs @ out) \<and>
           map title out = map get_text (filter wellfound_accepts as) \<and>
           map link out =
             map (\<lambda>a. Some (if startswith (href a) ''http'' then href a else f (href a)))
               (filter wellfound_accepts as)"
  using assms
proof (induction as arbitrary: jobs)
  case Nil
  show ?case by simp
next
  case (Cons a as)
  let ?links = "\<lambda>as. map (\<lambda>a. Some (if startswith (href a) ''http'' then href a else f (href a)))
                       (filter wellfound_accepts as)"
  from Cons have ih: "\<And>jobs. \<exists>out. wellfound_loop uj base jobs as = Inr (jobs @ out) \<and>
      map title out = map get_text (filter wellfound_accepts as) \<and> map link out = ?links as"
    by simp
  show ?case
  proof (cases "wellfound_accepts a")
    case True
    let ?full = "if startswith (href a) ''http'' then href a else f (href a)"
    let ?new = "\<lparr>company = ''-'', title = get_text a, location = ''Remote'',
                  link = Some ?full,
                  job_keywords = ''data; metrics; reporting; dashboards; insights'',
                  skills = ''SQL; Python; Looker/Tableau; Excel; stats''\<rparr>"
    from Cons.prems True
    have full: "(if startswith (href a) ''http'' then Inr (href a) else uj base (href a)) =
                  Inr ?full"
      by simp
    from ih [of "jobs @ [?new]"] obtain out where out:
      "wellfound_loop uj base (jobs @ [?new]) as = Inr ((jobs @ [?new]) @ out)"
      "map title out = map get_text (filter wellfound_accepts as)"
      "map link out = ?links as"
      by blast
    from True
    have "wellfound_loop uj base jobs (a # as) = wellfound_loop uj base (jobs @ [?new]) as"
      by (simp add: Let_def code_rule wellfound_accepts_def full del: append_assoc)
    with out True have "wellfound_loop uj base jobs (a # as) = Inr (jobs @ (?new # out)) \<and>
        map title (?new # out) = map get_text (filter wellfound_accepts (a # as)) \<and>
        map link (?new # out) = ?links (a # as)"
      by simp
    then show ?thesis by blast
  next
    case False
    then have "wellfound_loop uj base jobs (a # as) = wellfound_loop uj base jobs as"
      by (auto simp: Let_def code_rule wellfound_accepts_def)
    with False ih [of jobs] show ?thesis
      by simp
  qed
qed

lemma topstartups_loop_out:
  assumes "\<forall>a\<in>set as. topstartups_accepts a \<and> \<not> startswith (href a) ''http'' \<longrightarrow>
             uj ''https://topstartups.io'' (href a) = Inr (f (href a))"
  shows "\<exists>out. topstartups_loop uj jobs as = Inr (jobs @ out) \<and>
           map title out = map get_text (filter topstartups_accepts as) \<and>
           map link out =
             map (\<lambda>a. Some (if startswith (href a) ''http'' then href a else f (href a)))
               (filter topstartups_accepts as)"
  using assms
proof (induction as arbitrary: jobs)
  case Nil
  show ?case by simp
next
  case (Cons a as)
  let ?links = "\<lambda>as. map (\<lambda>a. Some (if startswith (href a) ''http'' then href a else f (href a)))
                       (filter topstartups_accepts as)"
  from Cons have ih: "\<And>jobs. \<exists>out. topstartups_loop uj jobs as = Inr (jobs @ out) \<and>
      map title out = map get_text (filter topstartups_accepts as) \<and> map link out = ?links as"
    by simp
  show ?case
  proof (cases "topstartups_accepts a")
    case True
    let ?full = "if startswith (href a) ''http'' then href a else f (href a)"
    let ?new = "\<lparr>company = ''-'', title = get_text a, location = ''Remote'',
                  link = Some ?full,
                  job_keywords = ''data; metrics; dashboards; insights; reporting'',
                  skills = ''SQL; Python; visualization; data pipelines; statistics''\<rparr>"
    from Cons.prems True
    have full: "(if startswith (href a) ''http'' then Inr (href a)
                 else uj ''https://topstartups.io'' (href a)) = Inr ?full"
      by simp
    from ih [of "jobs @ [?new]"] obtain out where out:
      "topstartups_loop uj (jobs @ [?new]) as = Inr ((jobs @ [?new]) @ out)"
      "map title out = map get_text (filter topstartups_accepts as)"
      "map link out = ?links as"
      by blast
    from True
    have "topstartups_loop uj jobs (a # as) = topstartups_loop uj (jobs @ [?new]) as"
      by (simp add: Let_def analyst_rule topstartups_accepts_def full del: append_assoc)
    with out True have "topstartups_loop uj jobs (a # as) = Inr (jobs @ (?new # out)) \<and>
        map title (?new # out) = map get_text (filter topstartups_accepts (a # as)) \<and>
        map link (?new # out) = ?links (a # as)"
      by simp
    then show ?thesis by blast
  next
    case False
    then have "topstartups_loop uj jobs (a # as) = topstartups_loop uj jobs as"
      by (auto simp: Let_def analyst_rule topstartups_accepts_def)
    with False ih [of jobs] show ?thesis
      by simp
  qed
qed

lemma wellfound_loop_raises:
  "\<exists>a\<in>set as. wellfound_accepts a \<and> \<not> startswith (href a) ''http'' \<and> isl (uj base (href a)) \<Longrightarrow>
     isl (wellfound_loop uj base jobs as)"
proof (induction as arbitrary: jobs)
  case Nil
  then show ?case by simp
next
  case (Cons a as)
  show ?case
  proof (cases "wellfound_accepts a \<and> \<not> startswith (href a) ''http'' \<and> isl (uj base (href a))")
    case True
    then show ?thesis
      by (auto simp: Let_def code_rule wellfound_accepts_def isl_def)
  next
    case False
    with Cons.prems
    have "\<exists>a\<in>set as. wellfound_accepts a \<and> \<not> startswith (href a) ''http'' \<and>
            isl (uj base (href a))"
      by auto
    then have ih: "\<And>jobs. isl (wellfound_loop uj base jobs as)"
      by (rule Cons.IH)
    show ?thesis
      by (simp add: Let_def ih split: sum.split)
  qed
qed

lemma topstartups_loop_raises:
  "\<exists>a\<in>set as. topstartups_accepts a \<and> \<not> startswith (href a) ''http'' \<and>
       isl (uj ''https://topstartups.io'' (href a)) \<Longrightarrow>
     isl (topstartups_loop uj jobs as)"
proof (induction as arbitrary: jobs)
  case Nil
  then show ?case by simp
next
  case (Cons a as)
  show ?case
  proof (cases "topstartups_accepts a \<and> \<not> startswith (href a) ''http'' \<and>
                isl (uj ''https://topstartups.io'' (href a))")
    case True
    then show ?thesis
      by (auto simp: Let_def analyst_rule topstartups_accepts_def isl_def)
  next
    case False
    with Cons.prems
    have "\<exists>a\<in>set as. topstartups_accepts a \<and> \<not> startswith (href a) ''http'' \<and>
            isl (uj ''https://topstartups.io'' (href a))"
      by auto
    then have ih: "\<And>jobs. isl (topstartups_loop uj jobs as)"
      by (rule Cons.IH)
    show ?thesis
      by (simp add: Let_def ih split: sum.split)
  qed
qed

lemma fetch_wellfound_raises:
  "\<exists>a\<in>set as. wellfound_accepts a \<and> \<not> startswith (href a) ''http'' \<and>
       isl (uj ''https://wellfound.com'' (href a)) \<Longrightarrow>
     fetch_wellfound uj (answered as) = []"
  using wellfound_loop_raises [of as uj "''https://wellfound.com''" "[]"]
  by (auto simp: fetch_wellfound_answered isl_def)

lemma fetch_topstartups_raises:
  "\<exists>a\<in>set as. topstartups_accepts a \<and> \<not> startswith (href a) ''http'' \<and>
       isl (uj ''https://topstartups.io'' (href a)) \<Longrightarrow>
     fetch_topstartups uj (answered as) = []"
  using topstartups_loop_raises [of as uj "[]"]
  by (auto simp: fetch_topstartups_answered isl_def)




lemma all_jobs_append:
  "all_jobs w =
     fetch_remotive (remotive_api w) @ fetch_topstartups (urljoin w) (topstartups_page w) @
     fetch_wellfound (urljoin w) (wellfound_page w)"
  by (simp add: all_jobs_def)

lemma dedupe_key_link: "link j = Some l \<Longrightarrow> strip l \<noteq> [] \<Longrightarrow> dedupe_key j = strip l"
  by (simp add: dedupe_key_def)

section \<open>The fetchers: the claims\<close>

text \<open>
  C5. The title filter of \<open>fetch_remotive\<close> is the case-insensitive rule "the title
  contains 'data analyst', or it contains both 'data' and 'analyst'", the two words in any
  order: a listing with the title \<open>t\<close> gives a job exactly when \<open>t\<close> meets the rule, and of
  an answer in which no title is \<open>null\<close> the fetcher keeps, in order, the titles that meet
  it. "Senior Data Analyst" passes, "Data Scientist" does not, "Analyst of Data Systems"
  passes.
\<close>

theorem fetch_remotive_title_filter:
  "map title (fetch_remotive (answered [j\<lparr>listing_title := Str t\<rparr>])) =
     (if title_rule t then [t] else []) \<and>
   ((\<forall>j\<in>set data. listing_title j \<noteq> Null) \<longrightarrow>
      map title (fetch_remotive (answered data)) = filter title_rule (map title_of data)) \<and>
   title_rule ''Senior Data Analyst'' \<and>
   \<not> title_rule ''Data Scientist'' \<and>
   title_rule ''Analyst of Data Systems''"
proof -
  have "map title (fetch_remotive (answered [j\<lparr>listing_title := Str t\<rparr>])) =
          (if title_rule t then [t] else [])"
    using remotive_loop_titles [of "[j\<lparr>listing_title := Str t\<rparr>]" "[]"]
    by (auto simp: fetch_remotive_answered title_of_def)
  moreover
  have "map title (fetch_remotive (answered data)) = filter title_rule (map title_of data)"
    if "\<forall>j\<in>set data. listing_title j \<noteq> Null"
    using remotive_loop_titles [of data "[]"] that by (auto simp: fetch_remotive_answered)
  moreover have "title_rule ''Senior Data Analyst''"
    by (simp add: title_rule_eval eval_strings)
  moreover have "\<not> title_rule ''Data Scientist''"
    by (simp add: title_rule_eval eval_strings)
  moreover have "title_rule ''Analyst of Data Systems''"
    by (simp add: title_rule_eval eval_strings)
  ultimately show ?thesis by blast
qed

theorem fetch_remotive_title_filter_witness:
  "map title (fetch_remotive (answered listings_sample)) =
     [''Senior Data Analyst'', ''Analyst of Data Systems'']"
proof -
  have "\<forall>j\<in>set listings_sample. listing_title j \<noteq> Null"
    by (simp add: listings_sample_def)
  with fetch_remotive_title_filter [of _ _ listings_sample]
  have "map title (fetch_remotive (answered listings_sample)) =
          filter title_rule (map title_of listings_sample)"
    by blast
  also have "\<dots> = [''Senior Data Analyst'', ''Analyst of Data Systems'']"
    by (simp add: listings_sample_def title_of_def title_rule_eval eval_strings)
  finally show ?thesis .
qed

text \<open>
  C1, as stated, fails for \<open>fetch_topstartups\<close>: the anchor "Financial Analyst", shorter
  than 200 characters, becomes a job although its text does not meet the rule (it does not
  contain "data").
\<close>

theorem fetch_topstartups_takes_financial_analyst:
  "fetch_topstartups join_path
     (answered [\<lparr>get_text = ''Financial Analyst'', href = ''/jobs/7''\<rparr>]) =
     [\<lparr>company = ''-'', title = ''Financial Analyst'', location = ''Remote'',
       link = Some ''https://topstartups.io/jobs/7'',
       job_keywords = ''data; metrics; dashboards; insights; reporting'',
       skills = ''SQL; Python; visualization; data pipelines; statistics''\<rparr>] \<and>
   \<not> title_rule ''Financial Analyst'' \<and>
   length ''Financial Analyst'' < 200"
  by (simp add: fetch_topstartups_answered title_rule_eval eval_strings join_path_def)

text \<open>
  C1, amended. On a page that was fetched and parsed, \<open>fetch_wellfound\<close> turns into jobs,
  in order, exactly the anchors with non-empty text and \<open>href\<close> whose text contains
  "data analyst" or both "data" and "analyst", case-insensitively; \<open>fetch_topstartups\<close>
  turns into jobs exactly the anchors with non-empty text and \<open>href\<close> whose text contains
  "analyst", case-insensitively, and is shorter than 200 characters. Both hold when
  \<open>urljoin\<close> raises for no reference of such an anchor; when it raises for one, the fetcher
  returns no job at all.
\<close>

theorem scrape_filters:
  "((\<forall>a\<in>set as. wellfound_accepts a \<and> \<not> startswith (href a) ''http'' \<longrightarrow>
        uj ''https://wellfound.com'' (href a) = Inr (f (href a))) \<longrightarrow>
      map title (fetch_wellfound uj (answered as)) =
        map get_text (filter wellfound_accepts as)) \<and>
   ((\<forall>a\<in>set as. topstartups_accepts a \<and> \<not> startswith (href a) ''http'' \<longrightarrow>
        uj ''https://topstartups.io'' (href a) = Inr (g (href a))) \<longrightarrow>
      map title (fetch_topstartups uj (answered as)) =
        map get_text (filter topstartups_accepts as)) \<and>
   ((\<exists>a\<in>set as. wellfound_accepts a \<and> \<not> startswith (href a) ''http'' \<and>
        isl (uj ''https://wellfound.com'' (href a))) \<longrightarrow>
      fetch_wellfound uj (answered as) = []) \<and>
   ((\<exists>a\<in>set as. topstartups_accepts a \<and> \<not> startswith (href a) ''http'' \<and>
        isl (uj ''https://topstartups.io'' (href a))) \<longrightarrow>
      fetch_topstartups uj (answered as) = [])"
proof -
  have "map title (fetch_wellfound uj (answered as)) = map get_text (filter wellfound_accepts as)"
    if "\<forall>a\<in>set as. wellfound_accepts a \<and> \<not> startswith (href a) ''http'' \<longrightarrow>
          uj ''https://wellfound.com'' (href a) = Inr (f (href a))"
    using wellfound_loop_out [of as uj "''https://wellfound.com''" f "[]"] that
    by (auto simp: fetch_wellfound_answered)
  moreover
  have "map title (fetch_topstartups uj (answered as)) =
          map get_text (filter topstartups_accepts as)"
    if "\<forall>a\<in>set as. topstartups_accepts a \<and> \<not> startswith (href a) ''http'' \<longrightarrow>
          uj ''https://topstartups.io'' (href a) = Inr (g (href a))"
    using topstartups_loop_out [of as uj g "[]"] that
    by (auto simp: fetch_topstartups_answered)
  ultimately show ?thesis
    using fetch_wellfound_raises [of as uj] fetch_topstartups_raises [of as uj] by blast
qed

theorem scrape_filters_witness:
  "map title (fetch_wellfound join_path (answered page_sample)) = [''Senior Data Analyst''] \<and>
   map title (fetch_topstartups join_path (answered page_sample)) =
     [''Senior Data Analyst'', ''Financial Analyst''] \<and>
   fetch_wellfound join_raising (answered page_sample) = [] \<and>
   fetch_topstartups join_raising (answered page_sample) = []"
proof -
  have rw: "\<exists>a\<in>set page_sample. wellfound_accepts a \<and> \<not> startswith (href a) ''http'' \<and>
              isl (join_raising ''https://wellfound.com'' (href a))"
    by (simp add: page_sample_def accepts_eval eval_strings join_raising_def)
  have rt: "\<exists>a\<in>set page_sample. topstartups_accepts a \<and> \<not> startswith (href a) ''http'' \<and>
              isl (join_raising ''https://topstartups.io'' (href a))"
    by (simp add: page_sample_def accepts_eval eval_strings join_raising_def)
  from rw rt scrape_filters [of page_sample join_raising]
  have raising: "fetch_wellfound join_raising (answered page_sample) = []"
    "fetch_topstartups join_raising (answered page_sample) = []"
    by blast+
  have w: "\<forall>a\<in>set page_sample. wellfound_accepts a \<and> \<not> startswith (href a) ''http'' \<longrightarrow>
            join_path ''https://wellfound.com'' (href a) =
              Inr (''https://wellfound.com'' @ href a)"
    by (simp add: join_path_def)
  have t: "\<forall>a\<in>set page_sample. topstartups_accepts a \<and> \<not> startswith (href a) ''http'' \<longrightarrow>
            join_path ''https://topstartups.io'' (href a) =
              Inr (''https://topstartups.io'' @ href a)"
    by (simp add: join_path_def)
  from w t
    scrape_filters [of page_sample join_path "(@) ''https://wellfound.com''"
      "(@) ''https://topstartups.io''"]
  have "map title (fetch_wellfound join_path (answered page_sample)) =
          map get_text (filter wellfound_accepts page_sample)"
    and "map title (fetch_topstartups join_path (answered page_sample)) =
          map get_text (filter topstartups_accepts page_sample)"
    by blast+
  with raising show ?thesis
    by (simp add: page_sample_def accepts_eval eval_strings)
qed

text \<open>
  C10. For every anchor a scraping fetcher turns into a job, the link of the job is the
  \<open>href\<close> as it stands when the \<open>href\<close> starts with the four characters "http", and
  otherwise what \<open>urljoin\<close> returns for the base URL of the source and the \<open>href\<close>
  (\<open>f\<close> and \<open>g\<close> below name what it returns for the two bases). So "mailto:x", which
  does not start with "http", is joined against the base, and "httpx/y", which does, is
  used as it stands.
\<close>

theorem scrape_link_resolution:
  "((\<forall>a\<in>set as. wellfound_accepts a \<and> \<not> startswith (href a) ''http'' \<longrightarrow>
        uj ''https://wellfound.com'' (href a) = Inr (f (href a))) \<longrightarrow>
      map link (fetch_wellfound uj (answered as)) =
        map (\<lambda>a. Some (if startswith (href a) ''http'' then href a else f (href a)))
          (filter wellfound_accepts as)) \<and>
   ((\<forall>a\<in>set as. topstartups_accepts a \<and> \<not> startswith (href a) ''http'' \<longrightarrow>
        uj ''https://topstartups.io'' (href a) = Inr (g (href a))) \<longrightarrow>
      map link (fetch_topstartups uj (answered as)) =
        map (\<lambda>a. Some (if startswith (href a) ''http'' then href a else g (href a)))
          (filter topstartups_accepts as)) \<and>
   (startswith h ''http'' \<longleftrightarrow> prefix ''http'' h) \<and>
   \<not> startswith ''mailto:x'' ''http'' \<and>
   startswith ''httpx/y'' ''http''"
proof -
  have "map link (fetch_wellfound uj (answered as)) =
          map (\<lambda>a. Some (if startswith (href a) ''http'' then href a else f (href a)))
            (filter wellfound_accepts as)"
    if "\<forall>a\<in>set as. wellfound_accepts a \<and> \<not> startswith (href a) ''http'' \<longrightarrow>
          uj ''https://wellfound.com'' (href a) = Inr (f (href a))"
    using wellfound_loop_out [of as uj "''https://wellfound.com''" f "[]"] that
    by (auto simp: fetch_wellfound_answered)
  moreover
  have "map link (fetch_topstartups uj (answered as)) =
          map (\<lambda>a. Some (if startswith (href a) ''http'' then href a else g (href a)))
            (filter topstartups_accepts as)"
    if "\<forall>a\<in>set as. topstartups_accepts a \<and> \<not> startswith (href a) ''http'' \<longrightarrow>
          uj ''https://topstartups.io'' (href a) = Inr (g (href a))"
    using topstartups_loop_out [of as uj g "[]"] that
    by (auto simp: fetch_topstartups_answered)
  moreover have "startswith h ''http'' \<longleftrightarrow> prefix ''http'' h"
    by (rule startswith_prefix)
  moreover have "\<not> startswith ''mailto:x'' ''http''" "startswith ''httpx/y'' ''http''"
    by simp_all
  ultimately show ?thesis by blast
qed

theorem scrape_link_resolution_witness:
  "map link (fetch_wellfound join_symbolic (answered page_links)) =
     [Some ''urljoin(https://wellfound.com, mailto:x)'', Some ''httpx/y'', Some ''https://x/3''] \<and>
   map link (fetch_topstartups join_symbolic (answered page_links)) =
     [Some ''urljoin(https://topstartups.io, mailto:x)'', Some ''httpx/y'', Some ''https://x/3'']"
proof -
  let ?f = "\<lambda>h. ''urljoin(https://wellfound.com, '' @ h @ '')''"
  let ?g = "\<lambda>h. ''urljoin(https://topstartups.io, '' @ h @ '')''"
  have w: "\<forall>a\<in>set page_links. wellfound_accepts a \<and> \<not> startswith (href a) ''http'' \<longrightarrow>
            join_symbolic ''https://wellfound.com'' (href a) = Inr (?f (href a))"
    by (simp add: join_symbolic_def)
  have t: "\<forall>a\<in>set page_links. topstartups_accepts a \<and> \<not> startswith (href a) ''http'' \<longrightarrow>
            join_symbolic ''https://topstartups.io'' (href a) = Inr (?g (href a))"
    by (simp add: join_symbolic_def)
  from w t scrape_link_resolution [of page_links join_symbolic ?f ?g]
  have "map link (fetch_wellfound join_symbolic (answered page_links)) =
          map (\<lambda>a. Some (if startswith (href a) ''http'' then href a else ?f (href a)))
            (filter wellfound_accepts page_links)"
    and "map link (fetch_topstartups join_symbolic (answered page_links)) =
          map (\<lambda>a. Some (if startswith (href a) ''http'' then href a else ?g (href a)))
            (filter topstartups_accepts page_links)"
    by blast+
  then show ?thesis
    by (simp add: page_links_def accepts_eval eval_strings)
qed



section \<open>The notifier and the orchestrator: the claims\<close>

text \<open>
  C6, as stated, fails in its second half: with \<open>SENDGRID_API_KEY\<close> present in the
  environment and holding the empty string, the credential check of \<open>send_email\<close> raises.
\<close>

theorem send_email_empty_key_raises:
  "SENDGRID_API_KEY [''SENDGRID_API_KEY'' \<mapsto> []] = Some [] \<and>
   send_email [''SENDGRID_API_KEY'' \<mapsto> []] accepting ''<p>x</p>'' =
     (Inl (RuntimeError ''SENDGRID_API_KEY not set in environment''), [])"
  by (simp add: SENDGRID_API_KEY_def send_email_def)

text \<open>
  C6, amended. If \<open>SENDGRID_API_KEY\<close> is absent or holds the empty string, then for every
  HTML body \<open>send_email\<close> raises \<open>RuntimeError\<close> with no event before it (no message
  constructed, no send attempted), and \<open>main\<close> ends with that same error. If the key is
  present and not empty, the credential check raises nothing: the message is constructed
  from the configured addresses, the fixed subject and the body, the send is attempted
  with the key, and the outcome is the provider's.
\<close>

theorem send_email_credential_check:
  "(not_set k \<longleftrightarrow> k = None \<or> k = Some []) \<and>
   (not_set (SENDGRID_API_KEY env) \<longrightarrow>
      send_email env sg html_body =
        (Inl (RuntimeError ''SENDGRID_API_KEY not set in environment''), [])) \<and>
   (not_set (SENDGRID_API_KEY (environ w)) \<longrightarrow>
      main w = (Inl (RuntimeError ''SENDGRID_API_KEY not set in environment''), [])) \<and>
   (SENDGRID_API_KEY env = Some key \<and> key \<noteq> [] \<longrightarrow>
      (\<exists>message.
         message = \<lparr>from_email = FROM_EMAIL env, to_emails = TO_EMAIL env,
                     subject = ''Daily Remote Data Analyst Jobs'', html_content = html_body\<rparr> \<and>
         send_email env sg html_body =
           (case sg key message of
              Inl e \<Rightarrow> (Inl e, [Constructed message, Send_called key message])
            | Inr status_code \<Rightarrow>
                (Inr (), [Constructed message, Send_called key message,
                          Printed_status status_code]))))"
proof -
  have raises: "send_email e s b =
                  (Inl (RuntimeError ''SENDGRID_API_KEY not set in environment''), [])"
    if "not_set (SENDGRID_API_KEY e)" for e s b
    using that by (auto simp: send_email_def not_set_def)
  have propagates: "main w = (Inl (RuntimeError ''SENDGRID_API_KEY not set in environment''), [])"
    if "not_set (SENDGRID_API_KEY (environ w))"
    using that by (simp add: main_def raises Let_def)
  have shape: "not_set k \<longleftrightarrow> k = None \<or> k = Some []"
    by (simp add: not_set_def)
  have proceeds:
    "\<exists>message.
       message = \<lparr>from_email = FROM_EMAIL env, to_emails = TO_EMAIL env,
                   subject = ''Daily Remote Data Analyst Jobs'', html_content = html_body\<rparr> \<and>
       send_email env sg html_body =
         (case sg key message of
            Inl e \<Rightarrow> (Inl e, [Constructed message, Send_called key message])
          | Inr status_code \<Rightarrow>
              (Inr (), [Constructed message, Send_called key message,
                        Printed_status status_code]))"
    if "SENDGRID_API_KEY env = Some key \<and> key \<noteq> []"
    using that by (simp add: send_email_def Let_def)
  from shape raises propagates proceeds show ?thesis
    by blast
qed

theorem send_email_credential_check_witness:
  "send_email Map.empty accepting ''<p>x</p>'' =
     (Inl (RuntimeError ''SENDGRID_API_KEY not set in environment''), []) \<and>
   main (world_scenario\<lparr>environ := Map.empty\<rparr>) =
     (Inl (RuntimeError ''SENDGRID_API_KEY not set in environment''), []) \<and>
   send_email [''SENDGRID_API_KEY'' \<mapsto> ''SG.key''] accepting ''<p>x</p>'' =
     (Inr (),
      [Constructed \<lparr>from_email = ''Tanko8668@gmail.com'', to_emails = ''Tanko8668@gmail.com'',
                     subject = ''Daily Remote Data Analyst Jobs'', html_content = ''<p>x</p>''\<rparr>,
       Send_called ''SG.key''
         \<lparr>from_email = ''Tanko8668@gmail.com'', to_emails = ''Tanko8668@gmail.com'',
          subject = ''Daily Remote Data Analyst Jobs'', html_content = ''<p>x</p>''\<rparr>,
       Printed_status 202])"
proof -
  have absent: "not_set (SENDGRID_API_KEY Map.empty)"
    by (simp add: not_set_def SENDGRID_API_KEY_def)
  have absent': "not_set (SENDGRID_API_KEY (environ (world_scenario\<lparr>environ := Map.empty\<rparr>)))"
    by (simp add: not_set_def SENDGRID_API_KEY_def)
  have present: "SENDGRID_API_KEY [''SENDGRID_API_KEY'' \<mapsto> ''SG.key''] = Some ''SG.key'' \<and>
                 ''SG.key'' \<noteq> []"
    by (simp add: SENDGRID_API_KEY_def)
  from absent absent'
    send_email_credential_check
      [of None Map.empty accepting "''<p>x</p>''" "world_scenario\<lparr>environ := Map.empty\<rparr>"
        "''SG.key''"]
  have a: "send_email Map.empty accepting ''<p>x</p>'' =
             (Inl (RuntimeError ''SENDGRID_API_KEY not set in environment''), [])"
    and b: "main (world_scenario\<lparr>environ := Map.empty\<rparr>) =
             (Inl (RuntimeError ''SENDGRID_API_KEY not set in environment''), [])"
    by blast+
  from present
    send_email_credential_check
      [of None "[''SENDGRID_API_KEY'' \<mapsto> ''SG.key'']" accepting "''<p>x</p>''" world_scenario
        "''SG.key''"]
  have "\<exists>message.
         message = \<lparr>from_email = FROM_EMAIL [''SENDGRID_API_KEY'' \<mapsto> ''SG.key''],
                     to_emails = TO_EMAIL [''SENDGRID_API_KEY'' \<mapsto> ''SG.key''],
                     subject = ''Daily Remote Data Analyst Jobs'', html_content = ''<p>x</p>''\<rparr> \<and>
         send_email [''SENDGRID_API_KEY'' \<mapsto> ''SG.key''] accepting ''<p>x</p>'' =
           (case accepting ''SG.key'' message of
              Inl e \<Rightarrow> (Inl e, [Constructed message, Send_called ''SG.key'' message])
            | Inr status_code \<Rightarrow>
                (Inr (), [Constructed message, Send_called ''SG.key'' message,
                          Printed_status status_code]))"
    by blast
  then have c: "send_email [''SENDGRID_API_KEY'' \<mapsto> ''SG.key''] accepting ''<p>x</p>'' =
     (Inr (),
      [Constructed \<lparr>from_email = ''Tanko8668@gmail.com'', to_emails = ''Tanko8668@gmail.com'',
                     subject = ''Daily Remote Data Analyst Jobs'', html_content = ''<p>x</p>''\<rparr>,
       Send_called ''SG.key''
         \<lparr>from_email = ''Tanko8668@gmail.com'', to_emails = ''Tanko8668@gmail.com'',
          subject = ''Daily Remote Data Analyst Jobs'', html_content = ''<p>x</p>''\<rparr>,
       Printed_status 202])"
    by (simp add: accepting_def FROM_EMAIL_def TO_EMAIL_def)
  from a b c show ?thesis by blast
qed

text \<open>
  C8, as stated, fails: Remotive returns a list of two jobs, TopStartups fails and returns
  the empty list, Wellfound returns one job whose link is the link of a job of the first
  list; but the two jobs of the first list carry the same link, and the table handed to
  the notifier has one body row.
\<close>

theorem main_shared_link_one_row:
  "fetch_remotive (remotive_api world_shared_link) =
     [\<lparr>company = ''Acme'', title = ''Data Analyst'', location = ''Worldwide'',
       link = Some ''https://x/1'',
       job_keywords = ''analysis; reporting; dashboards; metrics; data'',
       skills = ''Python; SQL; Excel; BI tools; statistics''\<rparr>,
      \<lparr>company = ''Acme'', title = ''Senior Data Analyst'', location = ''Worldwide'',
       link = Some ''https://x/1'',
       job_keywords = ''analysis; reporting; dashboards; metrics; data'',
       skills = ''Python; SQL; Excel; BI tools; statistics''\<rparr>] \<and>
   fetch_topstartups (urljoin world_shared_link) (topstartups_page world_shared_link) = [] \<and>
   map link (fetch_wellfound (urljoin world_shared_link) (wellfound_page world_shared_link)) =
     [Some ''https://x/1''] \<and>
   main world_shared_link =
     send_email (environ world_shared_link) (sendgrid world_shared_link)
       (table_head @
        ''<tr><td>Acme</td><td>Data Analyst</td><td>Worldwide</td>'' @
        ''<td><a href='https://x/1'>Apply</a></td>'' @
        ''<td>analysis; reporting; dashboards; metrics; data</td>'' @
        ''<td>Python; SQL; Excel; BI tools; statistics</td></tr>'' @
        table_foot)"
proof -
  have r: "fetch_remotive (remotive_api world_shared_link) =
     [\<lparr>company = ''Acme'', title = ''Data Analyst'', location = ''Worldwide'',
       link = Some ''https://x/1'',
       job_keywords = ''analysis; reporting; dashboards; metrics; data'',
       skills = ''Python; SQL; Excel; BI tools; statistics''\<rparr>,
      \<lparr>company = ''Acme'', title = ''Senior Data Analyst'', location = ''Worldwide'',
       link = Some ''https://x/1'',
       job_keywords = ''analysis; reporting; dashboards; metrics; data'',
       skills = ''Python; SQL; Excel; BI tools; statistics''\<rparr>]"
    by (simp add: world_shared_link_def eval_fetch)
  have t: "fetch_topstartups (urljoin world_shared_link) (topstartups_page world_shared_link) = []"
    by (simp add: world_shared_link_def eval_fetch)
  have f: "fetch_wellfound (urljoin world_shared_link) (wellfound_page world_shared_link) =
     [\<lparr>company = ''-'', title = ''Data Analyst at Acme'', location = ''Remote'',
       link = Some ''https://x/1'',
       job_keywords = ''data; metrics; reporting; dashboards; insights'',
       skills = ''SQL; Python; Looker/Tableau; Excel; stats''\<rparr>]"
    by (simp add: world_shared_link_def eval_fetch)
  have "main world_shared_link =
     send_email (environ world_shared_link) (sendgrid world_shared_link)
       (table_head @
        ''<tr><td>Acme</td><td>Data Analyst</td><td>Worldwide</td>'' @
        ''<td><a href='https://x/1'>Apply</a></td>'' @
        ''<td>analysis; reporting; dashboards; metrics; data</td>'' @
        ''<td>Python; SQL; Excel; BI tools; statistics</td></tr>'' @
        table_foot)"
    unfolding main_def all_jobs_append r t f
    by (simp add: eval_dedupe build_html_table_rows row_def format_value_def)
  with r t f show ?thesis by simp
qed

text \<open>
  C8, amended. When the three fetchers return, in call order, a list of two jobs with
  different identity keys, the empty list, and a list of one job whose link, not blank, is
  the link of a job of the first list, the table \<open>main\<close> renders and hands to the notifier
  has exactly two body rows: those of the two jobs of the first list, in their order.
\<close>

theorem main_scenario_two_rows:
  assumes "fetch_remotive (remotive_api w) = [j1, j2]"
    and "fetch_topstartups (urljoin w) (topstartups_page w) = []"
    and "fetch_wellfound (urljoin w) (wellfound_page w) = [j3]"
    and "dedupe_key j1 \<noteq> dedupe_key j2"
    and "link j3 = Some l" and "strip l \<noteq> []"
    and "link j1 = Some l \<or> link j2 = Some l"
  shows "main w = send_email (environ w) (sendgrid w) (build_html_table [j1, j2]) \<and>
         build_html_table [j1, j2] = table_head @ row j1 @ row j2 @ table_foot"
proof -
  from assms have all: "all_jobs w = [j1, j2, j3]"
    by (simp add: all_jobs_append)
  from assms have "dedupe_key j3 = dedupe_key j1 \<or> dedupe_key j3 = dedupe_key j2"
    by (auto simp: dedupe_key_link)
  with assms(4) have "dedupe_jobs [j1, j2, j3] = [j1, j2]"
    by (auto simp: dedupe_jobs_def Let_def dedupe_loop_Cons)
  with all show ?thesis
    by (simp add: main_def build_html_table_rows)
qed

theorem main_scenario_two_rows_witness:
  "main world_scenario =
     send_email (environ world_scenario) (sendgrid world_scenario)
       (table_head @
        ''<tr><td>Acme</td><td>Data Analyst</td><td>Worldwide</td>'' @
        ''<td><a href='https://x/1'>Apply</a></td>'' @
        ''<td>analysis; reporting; dashboards; metrics; data</td>'' @
        ''<td>Python; SQL; Excel; BI tools; statistics</td></tr>'' @
        ''<tr><td>-</td><td>Senior Data Analyst</td><td>Remote</td>'' @
        ''<td><a href='https://x/2'>Apply</a></td>'' @
        ''<td>analysis; reporting; dashboards; metrics; data</td>'' @
        ''<td>Python; SQL; Excel; BI tools; statistics</td></tr>'' @
        table_foot)"
proof -
  let ?j1 = "\<lparr>company = ''Acme'', title = ''Data Analyst'', location = ''Worldwide'',
       link = Some ''https://x/1'',
       job_keywords = ''analysis; reporting; dashboards; metrics; data'',
       skills = ''Python; SQL; Excel; BI tools; statistics''\<rparr>"
  let ?j2 = "\<lparr>company = ''-'', title = ''Senior Data Analyst'', location = ''Remote'',
       link = Some ''https://x/2'',
       job_keywords = ''analysis; reporting; dashboards; metrics; data'',
       skills = ''Python; SQL; Excel; BI tools; statistics''\<rparr>"
  let ?j3 = "\<lparr>company = ''-'', title = ''Data Analyst at Acme'', location = ''Remote'',
       link = Some ''https://x/1'',
       job_keywords = ''data; metrics; reporting; dashboards; insights'',
       skills = ''SQL; Python; Looker/Tableau; Excel; stats''\<rparr>"
  have r: "fetch_remotive (remotive_api world_scenario) = [?j1, ?j2]"
    by (simp add: world_scenario_def eval_fetch)
  have t: "fetch_topstartups (urljoin world_scenario) (topstartups_page world_scenario) = []"
    by (simp add: world_scenario_def eval_fetch)
  have f: "fetch_wellfound (urljoin world_scenario) (wellfound_page world_scenario) = [?j3]"
    by (simp add: world_scenario_def eval_fetch)
  have k: "dedupe_key ?j1 \<noteq> dedupe_key ?j2"
    by (simp add: eval_dedupe)
  have l: "link ?j3 = Some ''https://x/1''" "strip ''https://x/1'' \<noteq> []"
    "link ?j1 = Some ''https://x/1'' \<or> link ?j2 = Some ''https://x/1''"
    by (simp_all add: strip_def isspace_def)
  from main_scenario_two_rows [OF r t f k l]
  have "main world_scenario =
          send_email (environ world_scenario) (sendgrid world_scenario)
            (table_head @ row ?j1 @ row ?j2 @ table_foot)"
    by simp
  then show ?thesis
    by (simp add: row_def format_value_def)
qed

end
